theory Spec2Isabelle
  imports Main "HOL-Library.Word"
begin

unbundle bit_operations_syntax

section \<open>The winmenu binding: data model\<close>

text \<open>
  The package binds two entry points of \<^verbatim>\<open>user32.dll\<close>. The build target fixes the width
  of \<^verbatim>\<open>uintptr\<close> and of every Go pointer; the type parameter \<open>'p\<close> is that width in bits
  (\<open>32\<close> on a 4-byte-pointer target, \<open>64\<close> on an 8-byte-pointer target), so a
  \<^verbatim>\<open>uintptr\<close> is a \<open>'p word\<close>.
\<close>

type_synonym uint32 = "32 word"
type_synonym 'p uintptr = "'p word"

text \<open>\<^verbatim>\<open>type HMenu uintptr\<close>, \<^verbatim>\<open>type HBitmap uintptr\<close>\<close>

type_synonym 'p HMenu = "'p uintptr"
type_synonym 'p HBitmap = "'p uintptr"

text \<open>\<^verbatim>\<open>type MaskFlag uint32\<close>, \<^verbatim>\<open>type TypeFlag uint32\<close>, \<^verbatim>\<open>type StateFlag uint32\<close>\<close>

type_synonym MaskFlag = uint32
type_synonym TypeFlag = uint32
type_synonym StateFlag = uint32

subsection \<open>Lazily resolved entry points\<close>

record LazyDLL =
  Name :: string

record LazyProc =
  l :: LazyDLL
  ProcName :: string

definition NewLazyDLL :: "string \<Rightarrow> LazyDLL" where
  "NewLazyDLL name = \<lparr>Name = name\<rparr>"

definition NewProc :: "LazyDLL \<Rightarrow> string \<Rightarrow> LazyProc" where
  "NewProc d name = \<lparr>l = d, ProcName = name\<rparr>"

definition moduser32 :: LazyDLL where
  "moduser32 = NewLazyDLL ''user32.dll''"

definition procCreateMenu :: LazyProc where
  "procCreateMenu = NewProc moduser32 ''CreateMenu''"

definition procInsertMenuItem :: LazyProc where
  "procInsertMenuItem = NewProc moduser32 ''InsertMenuItemW''"

subsection \<open>The mask flags and the item-type flags\<close>

definition MIIM_BITMAP :: MaskFlag where "MIIM_BITMAP = 0x00000080"
definition MIIM_CHECKMARKS :: MaskFlag where "MIIM_CHECKMARKS = 0x00000008"
definition MIIM_DATA :: MaskFlag where "MIIM_DATA = 0x00000020"
definition MIIM_FTYPE :: MaskFlag where "MIIM_FTYPE = 0x00000100"
definition MIIM_ID :: MaskFlag where "MIIM_ID = 0x00000002"
definition MIIM_STATE :: MaskFlag where "MIIM_STATE = 0x00000001"
definition MIIM_STRING :: MaskFlag where "MIIM_STRING = 0x00000040"
definition MIIM_SUBMENU :: MaskFlag where "MIIM_SUBMENU = 0x00000004"
definition MIIM_TYPE :: MaskFlag where "MIIM_TYPE = 0x00000010"

definition MFT_BITMAP :: TypeFlag where "MFT_BITMAP = 0x00000004"
definition MFT_MENUBARBREAK :: TypeFlag where "MFT_MENUBARBREAK = 0x00000020"
definition MFT_MENUBREAK :: TypeFlag where "MFT_MENUBREAK = 0x00000040"
definition MFT_OWNERDRAW :: TypeFlag where "MFT_OWNERDRAW = 0x00000100"
definition MFT_RADIOCHECK :: TypeFlag where "MFT_RADIOCHECK = 0x00000200"
definition MFT_RIGHTORDER :: TypeFlag where "MFT_RIGHTORDER = 0x00002000"
definition MFT_SEPARATOR :: TypeFlag where "MFT_SEPARATOR = 0x00000800"
definition MFT_STRING :: TypeFlag where "MFT_STRING = 0x00000000"

subsection \<open>The item-state flags\<close>

definition MFS_CHECKED :: StateFlag where "MFS_CHECKED = 0x00000008"
definition MFS_DEFAULT :: StateFlag where "MFS_DEFAULT = 0x00001000"
definition MFS_DISABLED :: StateFlag where "MFS_DISABLED = 0x00000003"
definition MFS_ENABLED :: StateFlag where "MFS_ENABLED = 0x00000000"
definition MFS_GRAYED :: StateFlag where "MFS_GRAYED = 0x00000003"
definition MFS_HILITE :: StateFlag where "MFS_HILITE = 0x00000080"
definition MFS_UNCHECKED :: StateFlag where "MFS_UNCHECKED = 0x00000000"
definition MFS_UNHILITE :: StateFlag where "MFS_UNHILITE = 0x00000000"

text \<open>The \<^verbatim>\<open>const\<close> block of the state flags, in declaration order.\<close>

definition StateFlag_constants :: "(string \<times> StateFlag) list" where
  "StateFlag_constants =
     [(''MFS_CHECKED'', MFS_CHECKED),
      (''MFS_DEFAULT'', MFS_DEFAULT),
      (''MFS_DISABLED'', MFS_DISABLED),
      (''MFS_ENABLED'', MFS_ENABLED),
      (''MFS_GRAYED'', MFS_GRAYED),
      (''MFS_HILITE'', MFS_HILITE),
      (''MFS_UNCHECKED'', MFS_UNCHECKED),
      (''MFS_UNHILITE'', MFS_UNHILITE)]"

subsection \<open>The reserved bitmap handles\<close>

text \<open>
  Each constant of the \<^verbatim>\<open>HBitmap\<close> block carries a doc comment that says which glyph it
  stands for (``Close button for the menu bar.'', ``Disabled close button for the menu
  bar.'', ``Maximize button for the submenu.'', \dots); \<open>glyph\<close> records that comment.
  \<^verbatim>\<open>HBMMENU_CALLBACK\<close> is commented out in the source and so is no constant of the package.
\<close>

datatype menu_kind = MenuBar | Submenu

datatype glyph =
    CloseButton menu_kind
  | DisabledCloseButton menu_kind
  | MinimizeButton menu_kind
  | DisabledMinimizeButton menu_kind
  | RestoreButton menu_kind
  | MaximizeButton menu_kind
  | SystemIcon

definition HBMMENU_MBAR_CLOSE :: "'p::len HBitmap" where "HBMMENU_MBAR_CLOSE = 5"
definition HBMMENU_MBAR_CLOSE_D :: "'p::len HBitmap" where "HBMMENU_MBAR_CLOSE_D = 6"
definition HBMMENU_MBAR_MINIMIZE :: "'p::len HBitmap" where "HBMMENU_MBAR_MINIMIZE = 3"
definition HBMMENU_MBAR_MINIMIZE_D :: "'p::len HBitmap" where "HBMMENU_MBAR_MINIMIZE_D = 7"
definition HBMMENU_MBAR_RESTORE :: "'p::len HBitmap" where "HBMMENU_MBAR_RESTORE = 2"
definition HBMMENU_POPUP_CLOSE :: "'p::len HBitmap" where "HBMMENU_POPUP_CLOSE = 8"
definition HBMMENU_POPUP_MAXIMIZE :: "'p::len HBitmap" where "HBMMENU_POPUP_MAXIMIZE = 10"
definition HBMMENU_POPUP_MINIMIZE :: "'p::len HBitmap" where "HBMMENU_POPUP_MINIMIZE = 11"
definition HBMMENU_POPUP_RESTORE :: "'p::len HBitmap" where "HBMMENU_POPUP_RESTORE = 9"
definition HBMMENU_SYSTEM :: "'p::len HBitmap" where "HBMMENU_SYSTEM = 1"

text \<open>The \<^verbatim>\<open>const\<close> block of the bitmap handles, in declaration order.\<close>

definition HBitmap_constants :: "(string \<times> 'p::len HBitmap \<times> glyph) list" where
  "HBitmap_constants =
     [(''HBMMENU_MBAR_CLOSE'', HBMMENU_MBAR_CLOSE, CloseButton MenuBar),
      (''HBMMENU_MBAR_CLOSE_D'', HBMMENU_MBAR_CLOSE_D, DisabledCloseButton MenuBar),
      (''HBMMENU_MBAR_MINIMIZE'', HBMMENU_MBAR_MINIMIZE, MinimizeButton MenuBar),
      (''HBMMENU_MBAR_MINIMIZE_D'', HBMMENU_MBAR_MINIMIZE_D, DisabledMinimizeButton MenuBar),
      (''HBMMENU_MBAR_RESTORE'', HBMMENU_MBAR_RESTORE, RestoreButton MenuBar),
      (''HBMMENU_POPUP_CLOSE'', HBMMENU_POPUP_CLOSE, CloseButton Submenu),
      (''HBMMENU_POPUP_MAXIMIZE'', HBMMENU_POPUP_MAXIMIZE, MaximizeButton Submenu),
      (''HBMMENU_POPUP_MINIMIZE'', HBMMENU_POPUP_MINIMIZE, MinimizeButton Submenu),
      (''HBMMENU_POPUP_RESTORE'', HBMMENU_POPUP_RESTORE, RestoreButton Submenu),
      (''HBMMENU_SYSTEM'', HBMMENU_SYSTEM, SystemIcon)]"

text \<open>
  The sentinels as the specification lists them: ``close/minimize/restore buttons for bar
  and popup, system icon''. This list follows the specification's words, for comparison
  with \<open>HBitmap_constants\<close>.
\<close>

definition spec_sentinel_glyphs :: "glyph list" where
  "spec_sentinel_glyphs =
     [CloseButton MenuBar, MinimizeButton MenuBar, RestoreButton MenuBar,
      CloseButton Submenu, MinimizeButton Submenu, RestoreButton Submenu,
      SystemIcon]"

subsection \<open>The menu-item descriptor\<close>

record (overloaded) 'p MenuItemInfo =
  cbSize :: uint32
  fMask :: MaskFlag
  fType :: TypeFlag
  fState :: StateFlag
  wID :: uint32
  hSubMenu :: "'p HMenu"
  hbmpChecked :: "'p HBitmap"
  hbmpUnchecked :: "'p HBitmap"
  dwItemData :: "'p uintptr"
  dwTypeData :: "'p uintptr"
  cch :: uint32
  hbmpItem :: "'p HBitmap"

subsection \<open>The layout of the descriptor\<close>

text \<open>
  The declared type of each field, as the \<^verbatim>\<open>struct\<close> block writes it. A defined type
  (\<^verbatim>\<open>MaskFlag\<close>, \<^verbatim>\<open>HMenu\<close>, \dots) keeps its name and its underlying type.
\<close>

datatype go_type =
    Uint16
  | Uint32
  | Uint64
  | Uintptr
  | Pointer go_type
  | Defined string go_type

definition HMenu_t :: go_type where "HMenu_t = Defined ''HMenu'' Uintptr"
definition HBitmap_t :: go_type where "HBitmap_t = Defined ''HBitmap'' Uintptr"
definition MaskFlag_t :: go_type where "MaskFlag_t = Defined ''MaskFlag'' Uint32"
definition TypeFlag_t :: go_type where "TypeFlag_t = Defined ''TypeFlag'' Uint32"
definition StateFlag_t :: go_type where "StateFlag_t = Defined ''StateFlag'' Uint32"

text \<open>The fields of \<^verbatim>\<open>MenuItemInfo\<close>, in declaration order.\<close>

definition MenuItemInfo_fields :: "(string \<times> go_type) list" where
  "MenuItemInfo_fields =
     [(''cbSize'', Uint32),
      (''fMask'', MaskFlag_t),
      (''fType'', TypeFlag_t),
      (''fState'', StateFlag_t),
      (''wID'', Uint32),
      (''hSubMenu'', HMenu_t),
      (''hbmpChecked'', HBitmap_t),
      (''hbmpUnchecked'', HBitmap_t),
      (''dwItemData'', Pointer Uint64),
      (''dwTypeData'', Pointer Uint16),
      (''cch'', Uint32),
      (''hbmpItem'', HBitmap_t)]"

text \<open>
  \<^verbatim>\<open>unsafe.Sizeof\<close> and \<^verbatim>\<open>unsafe.Alignof\<close> as the Go compiler computes them, for a target
  whose pointers take \<open>ptr\<close> bytes: a fixed-width integer takes its width, \<^verbatim>\<open>uintptr\<close> and
  every pointer take \<open>ptr\<close> bytes, a defined type is laid out as its underlying type, and
  the alignment of a scalar is its size, capped by the pointer size.
\<close>

fun sizeof :: "nat \<Rightarrow> go_type \<Rightarrow> nat" where
  "sizeof ptr Uint16 = 2"
| "sizeof ptr Uint32 = 4"
| "sizeof ptr Uint64 = 8"
| "sizeof ptr Uintptr = ptr"
| "sizeof ptr (Pointer t) = ptr"
| "sizeof ptr (Defined n t) = sizeof ptr t"

definition alignof :: "nat \<Rightarrow> go_type \<Rightarrow> nat" where
  "alignof ptr t = min (sizeof ptr t) ptr"

text \<open>The width class of a field: fixed 32 bits, or as wide as a pointer.\<close>

datatype width = U32 | PointerWidth | OtherWidth nat

fun width_of :: "go_type \<Rightarrow> width" where
  "width_of Uint16 = OtherWidth 16"
| "width_of Uint32 = U32"
| "width_of Uint64 = OtherWidth 64"
| "width_of Uintptr = PointerWidth"
| "width_of (Pointer t) = PointerWidth"
| "width_of (Defined n t) = width_of t"

text \<open>
  A struct is laid out field by field: each field starts at the next multiple of its
  alignment, and the size of the struct is the end of the last field rounded up to the
  largest alignment among the fields.
\<close>

definition align_up :: "nat \<Rightarrow> nat \<Rightarrow> nat" where
  "align_up n a = ((n + a - 1) div a) * a"

fun field_offsets :: "nat \<Rightarrow> nat \<Rightarrow> go_type list \<Rightarrow> nat list" where
  "field_offsets ptr off [] = []"
| "field_offsets ptr off (t # ts) =
     (let start = align_up off (alignof ptr t)
      in start # field_offsets ptr (start + sizeof ptr t) ts)"

fun struct_end :: "nat \<Rightarrow> nat \<Rightarrow> go_type list \<Rightarrow> nat" where
  "struct_end ptr off [] = off"
| "struct_end ptr off (t # ts) =
     struct_end ptr (align_up off (alignof ptr t) + sizeof ptr t) ts"

definition struct_align :: "nat \<Rightarrow> go_type list \<Rightarrow> nat" where
  "struct_align ptr ts = foldr (\<lambda>t a. max (alignof ptr t) a) ts 1"

definition struct_size :: "nat \<Rightarrow> go_type list \<Rightarrow> nat" where
  "struct_size ptr ts = align_up (struct_end ptr 0 ts) (struct_align ptr ts)"

text \<open>The pointer size of the build target, in bytes.\<close>

definition PtrSize :: "'p::len itself \<Rightarrow> nat" where
  "PtrSize _ = LENGTH('p) div 8"

text \<open>\<^verbatim>\<open>unsafe.Sizeof(*lpmi)\<close>, a \<^verbatim>\<open>uintptr\<close> constant of the build target.\<close>

definition Sizeof_MenuItemInfo :: "'p::len uintptr" where
  "Sizeof_MenuItemInfo =
     of_nat (struct_size (PtrSize TYPE('p)) (map snd MenuItemInfo_fields))"

section \<open>The operating system behind the call boundary\<close>

text \<open>
  Memory is a typed heap: the descriptor stored at each address. A Go pointer
  \<^verbatim>\<open>*MenuItemInfo\<close> is either \<^verbatim>\<open>nil\<close> (address \<open>0\<close>) or the address of a live descriptor.
\<close>

type_synonym 'p heap = "'p uintptr \<Rightarrow> 'p MenuItemInfo"

definition nil :: "'p::len uintptr" where
  "nil = 0"

text \<open>
  \<^verbatim>\<open>(*LazyProc).Call\<close> hands the arguments to the resolved entry point and returns
  \<^verbatim>\<open>(r1, r2 uintptr, lastErr error)\<close>; the last error is a \<^verbatim>\<open>syscall.Errno\<close>, a
  \<^verbatim>\<open>uintptr\<close>. What the entry point does is not this package's code: it is the parameter
  \<open>os\<close>, any function of the procedure, its arguments and the memory it can reach through
  them, giving the three results and the memory it leaves behind. Both entry points are
  taken as resolved.
\<close>

type_synonym 'p results = "'p uintptr \<times> 'p uintptr \<times> 'p uintptr"
type_synonym 'p os = "LazyProc \<Rightarrow> 'p uintptr list \<Rightarrow> 'p heap \<Rightarrow> 'p results \<times> 'p heap"

text \<open>
  The call boundary is intercepted: every dispatch is logged with its procedure, its
  marshaled arguments and the memory as it stood when the call was made.
\<close>

record (overloaded) 'p dispatch =
  proc :: LazyProc
  args :: "'p uintptr list"
  mem :: "'p heap"

record (overloaded) 'p world =
  heap :: "'p heap"
  calls :: "'p dispatch list"

definition Call :: "'p::len os \<Rightarrow> LazyProc \<Rightarrow> 'p uintptr list \<Rightarrow> 'p world \<Rightarrow> 'p results \<times> 'p world" where
  "Call os p a w =
     (let (r, h') = os p a (heap w)
      in (r, \<lparr>heap = h', calls = calls w @ [\<lparr>proc = p, args = a, mem = heap w\<rparr>]\<rparr>))"

section \<open>The two operations\<close>

datatype panic = NilPointerDereference

text \<open>
  \<^verbatim>\<open>
  func CreateMenu() (hMenu HMenu, ok bool) {
      ret, _, _ := procCreateMenu.Call()
      return HMenu(ret), ret != 0
  }
  \<close>
\<close>

definition CreateMenu :: "'p::len os \<Rightarrow> 'p world \<Rightarrow> ('p HMenu \<times> bool) \<times> 'p world" where
  "CreateMenu os w =
     (let ((ret, _, _), w') = Call os procCreateMenu [] w
      in ((ret, ret \<noteq> 0), w'))"

text \<open>
  The assignment \<^verbatim>\<open>lpmi.cbSize = v\<close>: a store through \<^verbatim>\<open>lpmi\<close>, which panics when
  \<^verbatim>\<open>lpmi\<close> is \<^verbatim>\<open>nil\<close>.
\<close>

definition store_cbSize :: "'p::len uintptr \<Rightarrow> uint32 \<Rightarrow> 'p world \<Rightarrow> panic + 'p world" where
  "store_cbSize lpmi v w =
     (if lpmi = nil then Inl NilPointerDereference
      else Inr (w\<lparr>heap := (heap w)(lpmi := (heap w lpmi)\<lparr>cbSize := v\<rparr>)\<rparr>))"

text \<open>
  \<^verbatim>\<open>
  func (hMenu HMenu) InsertMenuItem(item uint32, fByPosition bool, lpmi *MenuItemInfo) (ok bool) {
      byPos := 0
      if fByPosition {
          byPos = 1
      }
      lpmi.cbSize = uint32(unsafe.Sizeof(*lpmi))
      ret, _, _ := procInsertMenuItem.Call(uintptr(hMenu), uintptr(item), uintptr(byPos), uintptr(unsafe.Pointer(lpmi)))
      return ret != 0
  }
  \<close>
  The result is the panic or the flag, together with the world as the operation left it.
\<close>

definition InsertMenuItem ::
  "'p::len os \<Rightarrow> 'p HMenu \<Rightarrow> uint32 \<Rightarrow> bool \<Rightarrow> 'p uintptr \<Rightarrow> 'p world \<Rightarrow> (panic + bool) \<times> 'p world" where
  "InsertMenuItem os hMenu item fByPosition lpmi w =
     (let byPos = (if fByPosition then 1 else 0 :: int)
      in case store_cbSize lpmi (ucast (Sizeof_MenuItemInfo :: 'p uintptr)) w of
           Inl e \<Rightarrow> (Inl e, w)
         | Inr w1 \<Rightarrow>
             (let ((ret, _, _), w2) =
                    Call os procInsertMenuItem [hMenu, ucast item, of_int byPos, lpmi] w1
              in (Inr (ret \<noteq> 0), w2)))"

section \<open>Sample inputs\<close>

text \<open>
  A populated descriptor (an enabled string item with command id 7, its size field not
  yet set), a memory that holds it at every address, and entry points that succeed or
  fail with different error values.
\<close>

definition sample_item :: "'p::len MenuItemInfo" where
  "sample_item =
     \<lparr>cbSize = 0, fMask = MIIM_ID OR MIIM_STRING OR MIIM_STATE, fType = MFT_STRING,
      fState = MFS_ENABLED, wID = 7, hSubMenu = 0, hbmpChecked = 0, hbmpUnchecked = 0,
      dwItemData = 0, dwTypeData = 0x5000, cch = 4, hbmpItem = HBMMENU_SYSTEM\<rparr>"

definition sample_world :: "'p::len world" where
  "sample_world = \<lparr>heap = (\<lambda>a. sample_item), calls = []\<rparr>"

definition os_accepts :: "'p::len os" where
  "os_accepts p a h = ((1, 0, 0), h)"

definition os_rejects_silently :: "'p::len os" where
  "os_rejects_silently p a h = ((0, 0, 0), h)"

definition os_rejects_with_error :: "'p::len os" where
  "os_rejects_with_error p a h = ((0, 7, 1401), h)"

section \<open>The size of the descriptor\<close>


lemma struct_size_4: "struct_size 4 (map snd MenuItemInfo_fields) = 48"
  by (simp add: struct_size_def struct_align_def MenuItemInfo_fields_def alignof_def align_up_def
     HMenu_t_def HBitmap_t_def MaskFlag_t_def TypeFlag_t_def StateFlag_t_def)

lemma struct_size_8: "struct_size 8 (map snd MenuItemInfo_fields) = 80"
  by (simp add: struct_size_def struct_align_def MenuItemInfo_fields_def alignof_def align_up_def
     HMenu_t_def HBitmap_t_def MaskFlag_t_def TypeFlag_t_def StateFlag_t_def)


lemma Sizeof_32: "(Sizeof_MenuItemInfo :: 32 word) = 48"
  by (simp add: Sizeof_MenuItemInfo_def PtrSize_def struct_size_4)

lemma Sizeof_64: "(Sizeof_MenuItemInfo :: 64 word) = 80"
  by (simp add: Sizeof_MenuItemInfo_def PtrSize_def struct_size_8)

lemma InsertMenuItem_nil:
  "InsertMenuItem os hMenu item f nil w = (Inl NilPointerDereference, w)"
  by (simp add: InsertMenuItem_def store_cbSize_def)

lemma InsertMenuItem_non_nil:
  fixes lpmi :: "'p::len uintptr"
  assumes "lpmi \<noteq> nil"
  shows "InsertMenuItem os hMenu item f lpmi w =
     (let h1 = (heap w)(lpmi := (heap w lpmi)\<lparr>cbSize := ucast (Sizeof_MenuItemInfo :: 'p::len word)\<rparr>);
          a = [hMenu, ucast item, if f then 1 else 0, lpmi]
      in (Inr (fst (fst (os procInsertMenuItem a h1)) \<noteq> 0),
          \<lparr>heap = snd (os procInsertMenuItem a h1),
           calls = calls w @ [\<lparr>proc = procInsertMenuItem, args = a, mem = h1\<rparr>]\<rparr>))"
  using assms
  by (simp add: InsertMenuItem_def store_cbSize_def Call_def Let_def case_prod_beta)


lemma dispatch_of_InsertMenuItem:
  fixes lpmi :: "'p::len uintptr" and w :: "'p world" and hMenu :: "'p HMenu"
    and item :: uint32 and f :: bool
  assumes "lpmi \<noteq> nil"
  defines "h1 \<equiv> (heap w)(lpmi := (heap w lpmi)\<lparr>cbSize := ucast (Sizeof_MenuItemInfo :: 'p uintptr)\<rparr>)"
  defines "a \<equiv> [hMenu, ucast item, if f then 1 else 0, lpmi]"
  shows "fst (InsertMenuItem os hMenu item f lpmi w) = Inr (fst (fst (os procInsertMenuItem a h1)) \<noteq> 0)"
    and "heap (snd (InsertMenuItem os hMenu item f lpmi w)) = snd (os procInsertMenuItem a h1)"
    and "calls (snd (InsertMenuItem os hMenu item f lpmi w)) =
           calls w @ [\<lparr>proc = procInsertMenuItem, args = a, mem = h1\<rparr>]"
  using assms(1) unfolding h1_def a_def
  by (simp_all add: InsertMenuItem_non_nil Let_def)

lemmas go_type_defs = HMenu_t_def HBitmap_t_def MaskFlag_t_def TypeFlag_t_def StateFlag_t_def

lemmas MFS_defs = MFS_CHECKED_def MFS_DEFAULT_def MFS_DISABLED_def MFS_ENABLED_def
  MFS_GRAYED_def MFS_HILITE_def MFS_UNCHECKED_def MFS_UNHILITE_def

lemmas HBMMENU_defs = HBMMENU_MBAR_CLOSE_def HBMMENU_MBAR_CLOSE_D_def HBMMENU_MBAR_MINIMIZE_def
  HBMMENU_MBAR_MINIMIZE_D_def HBMMENU_MBAR_RESTORE_def HBMMENU_POPUP_CLOSE_def
  HBMMENU_POPUP_MAXIMIZE_def HBMMENU_POPUP_MINIMIZE_def HBMMENU_POPUP_RESTORE_def
  HBMMENU_SYSTEM_def

section \<open>Properties of the binding\<close>

text \<open>
  C1. Every call of \<open>InsertMenuItem\<close> that reaches the operating system dispatches
  exactly once, and in the memory the entry point is handed the descriptor's \<open>cbSize\<close>
  already holds the size of \<open>MenuItemInfo\<close> computed from the field layout of the build
  target: 48 bytes with 4-byte pointers, 80 bytes with 8-byte pointers.
\<close>

theorem InsertMenuItem_stamps_cbSize:
  fixes lpmi4 :: "32 uintptr" and lpmi8 :: "64 uintptr"
  assumes "lpmi4 \<noteq> nil" and "lpmi8 \<noteq> nil"
  shows "(\<exists>d. calls (snd (InsertMenuItem os4 hMenu4 item4 f4 lpmi4 w4)) = calls w4 @ [d]
             \<and> proc d = procInsertMenuItem \<and> last (args d) = lpmi4
             \<and> cbSize (mem d lpmi4) = 48
             \<and> unat (cbSize (mem d lpmi4)) = struct_size 4 (map snd MenuItemInfo_fields))
       \<and> (\<exists>d. calls (snd (InsertMenuItem os8 hMenu8 item8 f8 lpmi8 w8)) = calls w8 @ [d]
             \<and> proc d = procInsertMenuItem \<and> last (args d) = lpmi8
             \<and> cbSize (mem d lpmi8) = 80
             \<and> unat (cbSize (mem d lpmi8)) = struct_size 8 (map snd MenuItemInfo_fields))"
proof (intro conjI)
  show "\<exists>d. calls (snd (InsertMenuItem os4 hMenu4 item4 f4 lpmi4 w4)) = calls w4 @ [d]
             \<and> proc d = procInsertMenuItem \<and> last (args d) = lpmi4
             \<and> cbSize (mem d lpmi4) = 48
             \<and> unat (cbSize (mem d lpmi4)) = struct_size 4 (map snd MenuItemInfo_fields)"
    using assms(1) by (simp add: dispatch_of_InsertMenuItem(3) Sizeof_32 struct_size_4)
  show "\<exists>d. calls (snd (InsertMenuItem os8 hMenu8 item8 f8 lpmi8 w8)) = calls w8 @ [d]
             \<and> proc d = procInsertMenuItem \<and> last (args d) = lpmi8
             \<and> cbSize (mem d lpmi8) = 80
             \<and> unat (cbSize (mem d lpmi8)) = struct_size 8 (map snd MenuItemInfo_fields)"
    using assms(2) by (simp add: dispatch_of_InsertMenuItem(3) Sizeof_64 struct_size_8)
qed

theorem InsertMenuItem_stamps_cbSize_witness:
  "(0x1000 :: 32 uintptr) \<noteq> nil \<and> (0x7ff000001000 :: 64 uintptr) \<noteq> nil
   \<and> (\<exists>d. calls (snd (InsertMenuItem os_accepts 0x2a 7 False (0x1000 :: 32 uintptr) sample_world))
              = calls sample_world @ [d]
             \<and> proc d = procInsertMenuItem \<and> last (args d) = 0x1000
             \<and> cbSize (mem d 0x1000) = 48
             \<and> unat (cbSize (mem d 0x1000)) = struct_size 4 (map snd MenuItemInfo_fields))
   \<and> (\<exists>d. calls (snd (InsertMenuItem os_rejects_with_error 0x2a 0 True (0x7ff000001000 :: 64 uintptr) sample_world))
              = calls sample_world @ [d]
             \<and> proc d = procInsertMenuItem \<and> last (args d) = 0x7ff000001000
             \<and> cbSize (mem d 0x7ff000001000) = 80
             \<and> unat (cbSize (mem d 0x7ff000001000)) = struct_size 8 (map snd MenuItemInfo_fields))"
proof -
  have n4: "(0x1000 :: 32 uintptr) \<noteq> nil" by (simp add: nil_def)
  have n8: "(0x7ff000001000 :: 64 uintptr) \<noteq> nil" by (simp add: nil_def)
  show ?thesis
    using n4 n8
      InsertMenuItem_stamps_cbSize [OF n4 n8, of os_accepts "0x2a" 7 False sample_world
        os_rejects_with_error "0x2a" 0 True sample_world]
    by simp
qed

text \<open>
  C2. \<open>CreateMenu\<close> dispatches once to the \<^verbatim>\<open>CreateMenu\<close> entry point with no arguments; the
  handle it returns is the first result of the entry point, unchanged, and the flag is true
  exactly when that handle is not zero.
\<close>

theorem CreateMenu_handle_and_flag:
  "fst (fst (CreateMenu os w)) = fst (fst (os procCreateMenu [] (heap w)))
   \<and> snd (fst (CreateMenu os w)) = (fst (fst (os procCreateMenu [] (heap w))) \<noteq> 0)
   \<and> snd (fst (CreateMenu os w)) = (fst (fst (CreateMenu os w)) \<noteq> 0)
   \<and> calls (snd (CreateMenu os w)) = calls w @ [\<lparr>proc = procCreateMenu, args = [], mem = heap w\<rparr>]
   \<and> heap (snd (CreateMenu os w)) = snd (os procCreateMenu [] (heap w))"
  by (simp add: CreateMenu_def Call_def Let_def case_prod_beta)

text \<open>
  C3. When \<open>InsertMenuItem\<close> is given a descriptor, its boolean result is true exactly when
  the first result of the entry point it dispatched to is not zero.
\<close>

theorem InsertMenuItem_flag:
  fixes lpmi :: "'p::len uintptr"
  assumes "lpmi \<noteq> nil"
  shows "\<exists>d. calls (snd (InsertMenuItem os hMenu item f lpmi w)) = calls w @ [d]
           \<and> proc d = procInsertMenuItem
           \<and> fst (InsertMenuItem os hMenu item f lpmi w)
               = Inr (fst (fst (os (proc d) (args d) (mem d))) \<noteq> 0)"
  using assms by (simp add: dispatch_of_InsertMenuItem)

theorem InsertMenuItem_flag_witness:
  "(0x1000 :: 32 uintptr) \<noteq> nil
   \<and> (\<exists>d. calls (snd (InsertMenuItem os_rejects_with_error 0x2a 7 False (0x1000 :: 32 uintptr) sample_world))
             = calls sample_world @ [d]
           \<and> proc d = procInsertMenuItem
           \<and> fst (InsertMenuItem os_rejects_with_error 0x2a 7 False (0x1000 :: 32 uintptr) sample_world)
               = Inr (fst (fst (os_rejects_with_error (proc d) (args d) (mem d))) \<noteq> 0))
   \<and> fst (InsertMenuItem os_rejects_with_error 0x2a 7 False (0x1000 :: 32 uintptr) sample_world) = Inr False
   \<and> fst (InsertMenuItem os_accepts 0x2a 7 False (0x1000 :: 32 uintptr) sample_world) = Inr True"
proof -
  have n: "(0x1000 :: 32 uintptr) \<noteq> nil" by (simp add: nil_def)
  have r: "fst (InsertMenuItem os_rejects_with_error 0x2a 7 False (0x1000 :: 32 uintptr) sample_world) = Inr False"
    using n by (simp add: dispatch_of_InsertMenuItem os_rejects_with_error_def)
  have a: "fst (InsertMenuItem os_accepts 0x2a 7 False (0x1000 :: 32 uintptr) sample_world) = Inr True"
    using n by (simp add: dispatch_of_InsertMenuItem os_accepts_def)
  show ?thesis
    using n r a InsertMenuItem_flag [OF n, of os_rejects_with_error "0x2a" 7 False sample_world]
    by simp
qed

text \<open>
  C4. \<open>InsertMenuItem\<close> passes four arguments; the third is the by-position flag, marshaled
  as 1 when the flag is true and as 0 when it is false.
\<close>

theorem InsertMenuItem_marshals_byPosition:
  fixes lpmi :: "'p::len uintptr"
  assumes "lpmi \<noteq> nil"
  shows "\<exists>d. calls (snd (InsertMenuItem os hMenu item f lpmi w)) = calls w @ [d]
           \<and> proc d = procInsertMenuItem
           \<and> length (args d) = 4
           \<and> args d ! 2 = (if f then 1 else 0)
           \<and> unat (args d ! 2) = (if f then 1 else 0)"
  using assms by (simp add: dispatch_of_InsertMenuItem)

theorem InsertMenuItem_marshals_byPosition_witness:
  "(0x1000 :: 64 uintptr) \<noteq> nil
   \<and> (\<exists>d. calls (snd (InsertMenuItem os_accepts 0x2a 7 True (0x1000 :: 64 uintptr) sample_world))
             = calls sample_world @ [d]
           \<and> proc d = procInsertMenuItem
           \<and> length (args d) = 4
           \<and> args d ! 2 = 1
           \<and> unat (args d ! 2) = 1)
   \<and> (\<exists>d. calls (snd (InsertMenuItem os_accepts 0x2a 7 False (0x1000 :: 64 uintptr) sample_world))
             = calls sample_world @ [d]
           \<and> proc d = procInsertMenuItem
           \<and> length (args d) = 4
           \<and> args d ! 2 = 0
           \<and> unat (args d ! 2) = 0)"
proof -
  have n: "(0x1000 :: 64 uintptr) \<noteq> nil" by (simp add: nil_def)
  show ?thesis
    using n InsertMenuItem_marshals_byPosition [OF n, of os_accepts "0x2a" 7 True sample_world]
      InsertMenuItem_marshals_byPosition [OF n, of os_accepts "0x2a" 7 False sample_world]
    by simp
qed

text \<open>
  C5. \<open>MenuItemInfo\<close> declares twelve fields, in this order and with these widths: five of
  32 bits, five as wide as a pointer, one of 32 bits, one as wide as a pointer. Their byte
  sizes and offsets follow for 4-byte and 8-byte pointers.
\<close>

theorem MenuItemInfo_field_order:
  "map (\<lambda>(n, t). (n, width_of t)) MenuItemInfo_fields =
     [(''cbSize'', U32), (''fMask'', U32), (''fType'', U32), (''fState'', U32), (''wID'', U32),
      (''hSubMenu'', PointerWidth), (''hbmpChecked'', PointerWidth),
      (''hbmpUnchecked'', PointerWidth), (''dwItemData'', PointerWidth),
      (''dwTypeData'', PointerWidth), (''cch'', U32), (''hbmpItem'', PointerWidth)]
   \<and> length MenuItemInfo_fields = 12
   \<and> map (sizeof 4 \<circ> snd) MenuItemInfo_fields = [4, 4, 4, 4, 4, 4, 4, 4, 4, 4, 4, 4]
   \<and> map (sizeof 8 \<circ> snd) MenuItemInfo_fields = [4, 4, 4, 4, 4, 8, 8, 8, 8, 8, 4, 8]
   \<and> field_offsets 4 0 (map snd MenuItemInfo_fields) = [0, 4, 8, 12, 16, 20, 24, 28, 32, 36, 40, 44]
   \<and> field_offsets 8 0 (map snd MenuItemInfo_fields) = [0, 4, 8, 12, 16, 24, 32, 40, 48, 56, 64, 72]"
  by (simp add: MenuItemInfo_fields_def go_type_defs alignof_def align_up_def)

text \<open>
  C6. Neither operation lets the caller see the second result or the error value of the
  call: two operating systems that agree on the first result and on the memory they leave
  behind cannot be told apart through \<open>CreateMenu\<close> or \<open>InsertMenuItem\<close>.
\<close>

theorem error_value_discarded:
  fixes os1 os2 :: "'p::len os"
  assumes "\<forall>p a h. fst (fst (os1 p a h)) = fst (fst (os2 p a h)) \<and> snd (os1 p a h) = snd (os2 p a h)"
  shows "CreateMenu os1 w = CreateMenu os2 w
       \<and> InsertMenuItem os1 hMenu item f lpmi w = InsertMenuItem os2 hMenu item f lpmi w"
  using assms
  by (simp add: CreateMenu_def InsertMenuItem_def Call_def Let_def case_prod_beta split: sum.splits)

theorem error_value_discarded_witness:
  "(\<forall>p a h. fst (fst ((os_rejects_silently :: 64 os) p a h)) = fst (fst (os_rejects_with_error p a h))
            \<and> snd ((os_rejects_silently :: 64 os) p a h) = snd (os_rejects_with_error p a h))
   \<and> (\<exists>p a h. snd (fst ((os_rejects_silently :: 64 os) p a h)) \<noteq> snd (fst (os_rejects_with_error p a h)))
   \<and> CreateMenu (os_rejects_silently :: 64 os) sample_world = CreateMenu os_rejects_with_error sample_world
   \<and> InsertMenuItem (os_rejects_silently :: 64 os) 0x2a 7 False 0x1000 sample_world
       = InsertMenuItem os_rejects_with_error 0x2a 7 False 0x1000 sample_world"
proof -
  have h: "\<forall>p a h. fst (fst ((os_rejects_silently :: 64 os) p a h)) = fst (fst (os_rejects_with_error p a h))
            \<and> snd ((os_rejects_silently :: 64 os) p a h) = snd (os_rejects_with_error p a h)"
    by (simp add: os_rejects_silently_def os_rejects_with_error_def)
  have d: "\<exists>p a h. snd (fst ((os_rejects_silently :: 64 os) p a h)) \<noteq> snd (fst (os_rejects_with_error p a h))"
    by (simp add: os_rejects_silently_def os_rejects_with_error_def)
  show ?thesis
    using h d error_value_discarded [OF h, of sample_world "0x2a" 7 False "0x1000"]
    by blast
qed

text \<open>
  C7. On the way to the entry point \<open>InsertMenuItem\<close> writes nothing but \<open>cbSize\<close> of the
  descriptor: the other eleven fields and every other address reach the entry point as the
  caller left them, the menu handle and the item identifier are passed on unchanged, and the
  memory after the operation is what the entry point left.
\<close>

theorem InsertMenuItem_frame:
  fixes lpmi :: "'p::len uintptr"
  assumes "lpmi \<noteq> nil" and "32 \<le> LENGTH('p)"
  shows "\<exists>d. calls (snd (InsertMenuItem os hMenu item f lpmi w)) = calls w @ [d]
           \<and> args d ! 0 = hMenu
           \<and> ucast (args d ! 1) = item
           \<and> args d ! 3 = lpmi
           \<and> mem d = (heap w)(lpmi := (heap w lpmi)\<lparr>cbSize := cbSize (mem d lpmi)\<rparr>)
           \<and> fMask (mem d lpmi) = fMask (heap w lpmi)
           \<and> fType (mem d lpmi) = fType (heap w lpmi)
           \<and> fState (mem d lpmi) = fState (heap w lpmi)
           \<and> wID (mem d lpmi) = wID (heap w lpmi)
           \<and> hSubMenu (mem d lpmi) = hSubMenu (heap w lpmi)
           \<and> hbmpChecked (mem d lpmi) = hbmpChecked (heap w lpmi)
           \<and> hbmpUnchecked (mem d lpmi) = hbmpUnchecked (heap w lpmi)
           \<and> dwItemData (mem d lpmi) = dwItemData (heap w lpmi)
           \<and> dwTypeData (mem d lpmi) = dwTypeData (heap w lpmi)
           \<and> cch (mem d lpmi) = cch (heap w lpmi)
           \<and> hbmpItem (mem d lpmi) = hbmpItem (heap w lpmi)
           \<and> (\<forall>a. a \<noteq> lpmi \<longrightarrow> mem d a = heap w a)
           \<and> heap (snd (InsertMenuItem os hMenu item f lpmi w)) = snd (os (proc d) (args d) (mem d))"
proof -
  have "ucast (ucast item :: 'p word) = item"
    using assms(2) by (intro ucast_up_ucast_id) (simp add: is_up)
  then show ?thesis
    using assms(1) by (simp add: dispatch_of_InsertMenuItem)
qed

theorem InsertMenuItem_frame_witness:
  "(0x1000 :: 64 uintptr) \<noteq> nil \<and> 32 \<le> LENGTH(64)
   \<and> (\<exists>d. calls (snd (InsertMenuItem os_accepts 0x2a 7 False (0x1000 :: 64 uintptr) sample_world))
              = calls sample_world @ [d]
           \<and> args d ! 0 = 0x2a
           \<and> ucast (args d ! 1) = (7 :: uint32)
           \<and> args d ! 3 = 0x1000
           \<and> mem d = (heap (sample_world :: 64 world))(0x1000 := (heap (sample_world :: 64 world) 0x1000)\<lparr>cbSize := cbSize (mem d 0x1000)\<rparr>)
           \<and> fMask (mem d 0x1000) = fMask (heap (sample_world :: 64 world) 0x1000)
           \<and> fType (mem d 0x1000) = fType (heap (sample_world :: 64 world) 0x1000)
           \<and> fState (mem d 0x1000) = fState (heap (sample_world :: 64 world) 0x1000)
           \<and> wID (mem d 0x1000) = wID (heap (sample_world :: 64 world) 0x1000)
           \<and> hSubMenu (mem d 0x1000) = hSubMenu (heap (sample_world :: 64 world) 0x1000)
           \<and> hbmpChecked (mem d 0x1000) = hbmpChecked (heap (sample_world :: 64 world) 0x1000)
           \<and> hbmpUnchecked (mem d 0x1000) = hbmpUnchecked (heap (sample_world :: 64 world) 0x1000)
           \<and> dwItemData (mem d 0x1000) = dwItemData (heap (sample_world :: 64 world) 0x1000)
           \<and> dwTypeData (mem d 0x1000) = dwTypeData (heap (sample_world :: 64 world) 0x1000)
           \<and> cch (mem d 0x1000) = cch (heap (sample_world :: 64 world) 0x1000)
           \<and> hbmpItem (mem d 0x1000) = hbmpItem (heap (sample_world :: 64 world) 0x1000)
           \<and> (\<forall>a. a \<noteq> 0x1000 \<longrightarrow> mem d a = heap (sample_world :: 64 world) a)
           \<and> heap (snd (InsertMenuItem os_accepts 0x2a 7 False (0x1000 :: 64 uintptr) sample_world))
               = snd (os_accepts (proc d) (args d) (mem d)))"
proof -
  have n: "(0x1000 :: 64 uintptr) \<noteq> nil" by (simp add: nil_def)
  have l: "32 \<le> LENGTH(64)" by simp
  show ?thesis
    by (rule conjI [OF n conjI [OF l InsertMenuItem_frame [OF n l]]])
qed

text \<open>
  C8, as stated, fails: the package also exposes the maximize button of the submenu, which
  is none of the glyphs the specification lists.
\<close>

theorem HBitmap_constants_beyond_spec:
  "MaximizeButton Submenu \<in> set (map (snd \<circ> snd) (HBitmap_constants :: (string \<times> 64 HBitmap \<times> glyph) list))
   \<and> MaximizeButton Submenu \<notin> set spec_sentinel_glyphs
   \<and> set (map (snd \<circ> snd) (HBitmap_constants :: (string \<times> 64 HBitmap \<times> glyph) list))
        \<noteq> set spec_sentinel_glyphs"
proof -
  have a: "MaximizeButton Submenu \<in> set (map (snd \<circ> snd) (HBitmap_constants :: (string \<times> 64 HBitmap \<times> glyph) list))"
    by (simp add: HBitmap_constants_def)
  have b: "MaximizeButton Submenu \<notin> set spec_sentinel_glyphs"
    by (simp add: spec_sentinel_glyphs_def)
  from a b show ?thesis by metis
qed

text \<open>
  C8, amended. The package exposes ten reserved bitmap handles: the glyphs the specification
  lists (close, minimize and restore buttons of the menu bar and of the submenu, and the
  system icon) and three more, the disabled close and disabled minimize buttons of the menu
  bar and the maximize button of the submenu.
\<close>

theorem HBitmap_constants_exposed:
  "map (\<lambda>(n, v, g). (n, g)) (HBitmap_constants :: (string \<times> 'p::len HBitmap \<times> glyph) list) =
     [(''HBMMENU_MBAR_CLOSE'', CloseButton MenuBar),
      (''HBMMENU_MBAR_CLOSE_D'', DisabledCloseButton MenuBar),
      (''HBMMENU_MBAR_MINIMIZE'', MinimizeButton MenuBar),
      (''HBMMENU_MBAR_MINIMIZE_D'', DisabledMinimizeButton MenuBar),
      (''HBMMENU_MBAR_RESTORE'', RestoreButton MenuBar),
      (''HBMMENU_POPUP_CLOSE'', CloseButton Submenu),
      (''HBMMENU_POPUP_MAXIMIZE'', MaximizeButton Submenu),
      (''HBMMENU_POPUP_MINIMIZE'', MinimizeButton Submenu),
      (''HBMMENU_POPUP_RESTORE'', RestoreButton Submenu),
      (''HBMMENU_SYSTEM'', SystemIcon)]
   \<and> map (fst \<circ> snd) (HBitmap_constants :: (string \<times> 'p HBitmap \<times> glyph) list)
       = [5, 6, 3, 7, 2, 8, 10, 11, 9, 1]
   \<and> set (map (snd \<circ> snd) (HBitmap_constants :: (string \<times> 'p HBitmap \<times> glyph) list))
       = set spec_sentinel_glyphs
           \<union> {DisabledCloseButton MenuBar, DisabledMinimizeButton MenuBar, MaximizeButton Submenu}
   \<and> distinct (map (snd \<circ> snd) (HBitmap_constants :: (string \<times> 'p HBitmap \<times> glyph) list))
   \<and> length (HBitmap_constants :: (string \<times> 'p HBitmap \<times> glyph) list) = 10"
proof -
  have s: "set (map (snd \<circ> snd) (HBitmap_constants :: (string \<times> 'p HBitmap \<times> glyph) list))
       = set spec_sentinel_glyphs
           \<union> {DisabledCloseButton MenuBar, DisabledMinimizeButton MenuBar, MaximizeButton Submenu}"
    by (auto simp add: HBitmap_constants_def spec_sentinel_glyphs_def)
  show ?thesis
    unfolding s by (simp add: HBitmap_constants_def HBMMENU_defs)
qed

text \<open>
  C9. With a \<^verbatim>\<open>nil\<close> descriptor \<open>InsertMenuItem\<close> panics on the store to \<open>cbSize\<close>, before
  any dispatch: the log of calls is unchanged. It returns a flag exactly when the descriptor
  is not \<^verbatim>\<open>nil\<close>.
\<close>

theorem InsertMenuItem_nil_panics:
  fixes lpmi :: "'p::len uintptr"
  shows "InsertMenuItem os hMenu item f (nil :: 'p uintptr) w = (Inl NilPointerDereference, w)
       \<and> calls (snd (InsertMenuItem os hMenu item f (nil :: 'p uintptr) w)) = calls w
       \<and> (\<exists>ok. fst (InsertMenuItem os hMenu item f lpmi w) = Inr ok) = (lpmi \<noteq> nil)
       \<and> (fst (InsertMenuItem os hMenu item f lpmi w) = Inl NilPointerDereference) = (lpmi = nil)"
proof (cases "lpmi = nil")
  case True
  then show ?thesis by (simp add: InsertMenuItem_nil)
next
  case False
  then show ?thesis by (simp add: InsertMenuItem_nil dispatch_of_InsertMenuItem(1))
qed

text \<open>
  C10. The eight state-flag constants take five distinct values: \<open>MFS_DISABLED\<close> and
  \<open>MFS_GRAYED\<close> are both 3, and \<open>MFS_ENABLED\<close>, \<open>MFS_UNCHECKED\<close> and \<open>MFS_UNHILITE\<close> are all 0,
  so setting them in a state word cannot be told apart.
\<close>

theorem StateFlag_five_values:
  "length StateFlag_constants = 8
   \<and> distinct (map fst StateFlag_constants)
   \<and> card (set (map snd StateFlag_constants)) = 5
   \<and> set (map snd StateFlag_constants) = {0x0, 0x3, 0x8, 0x80, 0x1000}
   \<and> MFS_DISABLED = MFS_GRAYED \<and> MFS_DISABLED = 0x3 \<and> MFS_GRAYED = 0x3
   \<and> MFS_ENABLED = 0 \<and> MFS_UNCHECKED = 0 \<and> MFS_UNHILITE = 0
   \<and> s OR MFS_DISABLED = s OR MFS_GRAYED
   \<and> s OR MFS_ENABLED = s \<and> s OR MFS_UNCHECKED = s \<and> s OR MFS_UNHILITE = s"
proof -
  have s: "set (map snd StateFlag_constants) = {0x0, 0x3, 0x8, 0x80, 0x1000}"
    by (auto simp add: StateFlag_constants_def MFS_defs)
  have c: "card ({0x0, 0x3, 0x8, 0x80, 0x1000} :: uint32 set) = 5"
    by simp
  show ?thesis
    unfolding s c by (simp add: StateFlag_constants_def MFS_defs)
qed

end
